theory Spec2Isabelle
  imports Main "HOL-Library.Word" "HOL-Library.Sublist"
begin

unbundle bit_operations_syntax

section \<open>Data model (internal/listener/config\_listener.go)\<close>

text \<open>
  Go strings are byte sequences; \<^typ>\<open>string\<close> is a list of 8-bit characters.
  \<open>ConfigItem\<close> is the struct of the listener package.
\<close>

record ConfigItem =
  DataID :: string
  Group :: string
  Tenant :: string
  MD5 :: string

text \<open>The two control bytes of the wire format: field separator 0x02, entry separator 0x01.\<close>

definition x01 :: char where
  "x01 = CHR 0x01"

definition x02 :: char where
  "x02 = CHR 0x02"

section \<open>Library functions of Go used by the listener\<close>

subsection \<open>strings.Split with a one-byte separator, strings.Contains\<close>

text \<open>
  \<open>strings.Split(s, sep)\<close> for a separator of one byte: the substrings between the
  separators, \<open>n + 1\<close> of them when the separator occurs \<open>n\<close> times; the empty string
  splits into one empty string.
\<close>

fun Split :: "string \<Rightarrow> char \<Rightarrow> string list" where
  "Split [] sep = [[]]"
| "Split (c # cs) sep =
     (if c = sep then [] # Split cs sep
      else (c # hd (Split cs sep)) # tl (Split cs sep))"

text \<open>\<open>strings.Contains(s, substr)\<close>: \<open>substr\<close> occurs in \<open>s\<close> as a contiguous block.\<close>

definition Contains :: "string \<Rightarrow> string \<Rightarrow> bool" where
  "Contains s substr = sublist substr s"

subsection \<open>net/url: QueryEscape and QueryUnescape\<close>

definition is_alnum :: "char \<Rightarrow> bool" where
  "is_alnum c =
     ((of_char CHR ''a'' \<le> (of_char c :: nat) \<and> (of_char c :: nat) \<le> of_char CHR ''z'') \<or>
      (of_char CHR ''A'' \<le> (of_char c :: nat) \<and> (of_char c :: nat) \<le> of_char CHR ''Z'') \<or>
      (of_char CHR ''0'' \<le> (of_char c :: nat) \<and> (of_char c :: nat) \<le> of_char CHR ''9''))"

text \<open>
  \<open>shouldEscape(c, encodeQueryComponent)\<close>: letters, digits and the four marks
  \<open>- _ . ~\<close> stay; every other byte is escaped.
\<close>

definition shouldEscape :: "char \<Rightarrow> bool" where
  "shouldEscape c =
     (if is_alnum c then False
      else if c = CHR ''-'' \<or> c = CHR ''_'' \<or> c = CHR ''.'' \<or> c = CHR ''~'' then False
      else True)"

definition upperhex :: string where
  "upperhex = ''0123456789ABCDEF''"

definition escape_byte :: "char \<Rightarrow> string" where
  "escape_byte c =
     (if c = CHR '' '' then ''+''
      else if shouldEscape c
        then [CHR ''%'', upperhex ! ((of_char c :: nat) div 16), upperhex ! ((of_char c :: nat) mod 16)]
      else [c])"

definition QueryEscape :: "string \<Rightarrow> string" where
  "QueryEscape s = concat (map escape_byte s)"

definition ishex :: "char \<Rightarrow> bool" where
  "ishex c =
     ((of_char CHR ''0'' \<le> (of_char c :: nat) \<and> (of_char c :: nat) \<le> of_char CHR ''9'') \<or>
      (of_char CHR ''a'' \<le> (of_char c :: nat) \<and> (of_char c :: nat) \<le> of_char CHR ''f'') \<or>
      (of_char CHR ''A'' \<le> (of_char c :: nat) \<and> (of_char c :: nat) \<le> of_char CHR ''F''))"

definition unhex :: "char \<Rightarrow> nat" where
  "unhex c =
     (if of_char CHR ''0'' \<le> (of_char c :: nat) \<and> (of_char c :: nat) \<le> of_char CHR ''9''
        then of_char c - of_char CHR ''0''
      else if of_char CHR ''a'' \<le> (of_char c :: nat) \<and> (of_char c :: nat) \<le> of_char CHR ''f''
        then of_char c - of_char CHR ''a'' + 10
      else if of_char CHR ''A'' \<le> (of_char c :: nat) \<and> (of_char c :: nat) \<le> of_char CHR ''F''
        then of_char c - of_char CHR ''A'' + 10
      else 0)"

text \<open>
  \<open>url.QueryUnescape\<close>: a \<open>%\<close> must be followed by two hexadecimal digits, otherwise
  the call fails with an \<open>EscapeError\<close> (here \<open>None\<close>); \<open>+\<close> decodes to a space.
\<close>

fun QueryUnescape :: "string \<Rightarrow> string option" where
  "QueryUnescape [] = Some []"
| "QueryUnescape (c # cs) =
     (if c = CHR ''%'' then
        (case cs of
           h1 # h2 # rest \<Rightarrow>
             (if ishex h1 \<and> ishex h2
              then map_option ((#) (char_of (unhex h1 * 16 + unhex h2))) (QueryUnescape rest)
              else None)
         | _ \<Rightarrow> None)
      else if c = CHR ''+'' then map_option ((#) CHR '' '') (QueryUnescape cs)
      else map_option ((#) c) (QueryUnescape cs))"

subsection \<open>crypto/md5 and the hexadecimal verb of fmt\<close>

text \<open>
  \<open>md5.Sum\<close> is RFC 1321. 32-bit unsigned values are natural numbers below \<open>2 ^ 32\<close>
  with the wrap-around written out. Each row of the table is one operation of the
  block function: the round (0 to 3), the index of the message word, the rotation
  and the additive constant.
\<close>

type_synonym u32 = nat

definition add32 :: "u32 \<Rightarrow> u32 \<Rightarrow> u32" where
  "add32 x y = (x + y) mod 2 ^ 32"

definition RotateLeft32 :: "u32 \<Rightarrow> nat \<Rightarrow> u32" where
  "RotateLeft32 x k = (x * 2 ^ (k mod 32)) mod 2 ^ 32 OR x div 2 ^ (32 - k mod 32)"

definition md5_F :: "nat \<Rightarrow> u32 \<Rightarrow> u32 \<Rightarrow> u32 \<Rightarrow> u32" where
  "md5_F r b c d =
     (if r = 0 then ((c XOR d) AND b) XOR d
      else if r = 1 then ((b XOR c) AND d) XOR c
      else if r = 2 then b XOR c XOR d
      else c XOR (b OR (2 ^ 32 - 1 - d)))"

definition md5_table :: "(nat \<times> nat \<times> nat \<times> u32) list" where
  "md5_table =
     [
      (0, 0, 7, 0xd76aa478), (0, 1, 12, 0xe8c7b756), (0, 2, 17, 0x242070db), (0, 3, 22, 0xc1bdceee),
      (0, 4, 7, 0xf57c0faf), (0, 5, 12, 0x4787c62a), (0, 6, 17, 0xa8304613), (0, 7, 22, 0xfd469501),
      (0, 8, 7, 0x698098d8), (0, 9, 12, 0x8b44f7af), (0, 10, 17, 0xffff5bb1), (0, 11, 22, 0x895cd7be),
      (0, 12, 7, 0x6b901122), (0, 13, 12, 0xfd987193), (0, 14, 17, 0xa679438e), (0, 15, 22, 0x49b40821),
      (1, 1, 5, 0xf61e2562), (1, 6, 9, 0xc040b340), (1, 11, 14, 0x265e5a51), (1, 0, 20, 0xe9b6c7aa),
      (1, 5, 5, 0xd62f105d), (1, 10, 9, 0x02441453), (1, 15, 14, 0xd8a1e681), (1, 4, 20, 0xe7d3fbc8),
      (1, 9, 5, 0x21e1cde6), (1, 14, 9, 0xc33707d6), (1, 3, 14, 0xf4d50d87), (1, 8, 20, 0x455a14ed),
      (1, 13, 5, 0xa9e3e905), (1, 2, 9, 0xfcefa3f8), (1, 7, 14, 0x676f02d9), (1, 12, 20, 0x8d2a4c8a),
      (2, 5, 4, 0xfffa3942), (2, 8, 11, 0x8771f681), (2, 11, 16, 0x6d9d6122), (2, 14, 23, 0xfde5380c),
      (2, 1, 4, 0xa4beea44), (2, 4, 11, 0x4bdecfa9), (2, 7, 16, 0xf6bb4b60), (2, 10, 23, 0xbebfbc70),
      (2, 13, 4, 0x289b7ec6), (2, 0, 11, 0xeaa127fa), (2, 3, 16, 0xd4ef3085), (2, 6, 23, 0x04881d05),
      (2, 9, 4, 0xd9d4d039), (2, 12, 11, 0xe6db99e5), (2, 15, 16, 0x1fa27cf8), (2, 2, 23, 0xc4ac5665),
      (3, 0, 6, 0xf4292244), (3, 7, 10, 0x432aff97), (3, 14, 15, 0xab9423a7), (3, 5, 21, 0xfc93a039),
      (3, 12, 6, 0x655b59c3), (3, 3, 10, 0x8f0ccc92), (3, 10, 15, 0xffeff47d), (3, 1, 21, 0x85845dd1),
      (3, 8, 6, 0x6fa87e4f), (3, 15, 10, 0xfe2ce6e0), (3, 6, 15, 0xa3014314), (3, 13, 21, 0x4e0811a1),
      (3, 4, 6, 0xf7537e82), (3, 11, 10, 0xbd3af235), (3, 2, 15, 0x2ad7d2bb), (3, 9, 21, 0xeb86d391)]"

fun md5_op :: "u32 list \<Rightarrow> u32 \<times> u32 \<times> u32 \<times> u32 \<Rightarrow> nat \<times> nat \<times> nat \<times> u32
    \<Rightarrow> u32 \<times> u32 \<times> u32 \<times> u32" where
  "md5_op x (a, b, c, d) (r, g, s, k) =
     (d, add32 b (RotateLeft32 (add32 (add32 (add32 (md5_F r b c d) a) (x ! g)) k) s), b, c)"

text \<open>The sixteen little-endian words of a block.\<close>

fun le_words :: "string \<Rightarrow> u32 list" where
  "le_words (b0 # b1 # b2 # b3 # rest) =
     (of_char b0 + 256 * of_char b1 + 65536 * of_char b2 + 16777216 * of_char b3) # le_words rest"
| "le_words _ = []"

fun md5_block :: "u32 \<times> u32 \<times> u32 \<times> u32 \<Rightarrow> string \<Rightarrow> u32 \<times> u32 \<times> u32 \<times> u32" where
  "md5_block (a0, b0, c0, d0) blk =
     (case foldl (md5_op (le_words blk)) (a0, b0, c0, d0) md5_table of
        (a, b, c, d) \<Rightarrow> (add32 a0 a, add32 b0 b, add32 c0 c, add32 d0 d))"

function md5_blocks :: "u32 \<times> u32 \<times> u32 \<times> u32 \<Rightarrow> string \<Rightarrow> u32 \<times> u32 \<times> u32 \<times> u32" where
  "md5_blocks h m =
     (if length m < 64 then h else md5_blocks (md5_block h (take 64 m)) (drop 64 m))"
  by pat_completeness auto
termination
  by (relation "measure (\<lambda>(h, m). length m)") auto

declare md5_blocks.simps [simp del]

text \<open>The first \<open>k\<close> bytes of \<open>n\<close>, least significant first.\<close>

fun le_bytes :: "nat \<Rightarrow> nat \<Rightarrow> string" where
  "le_bytes 0 n = []"
| "le_bytes (Suc k) n = char_of n # le_bytes k (n div 256)"

text \<open>
  Padding: the byte 0x80, zero bytes up to 56 modulo 64, then the length in bits as a
  64-bit little-endian integer.
\<close>

definition md5_pad :: "string \<Rightarrow> string" where
  "md5_pad msg =
     msg @ [CHR 0x80] @ replicate ((119 - length msg mod 64) mod 64) (CHR 0x00)
         @ le_bytes 8 ((8 * length msg) mod 2 ^ 64)"

definition md5_Sum :: "string \<Rightarrow> string" where
  "md5_Sum data =
     (case md5_blocks (0x67452301, 0xefcdab89, 0x98badcfe, 0x10325476) (md5_pad data) of
        (a, b, c, d) \<Rightarrow> le_bytes 4 a @ le_bytes 4 b @ le_bytes 4 c @ le_bytes 4 d)"

definition lowerhex :: string where
  "lowerhex = ''0123456789abcdef''"

text \<open>\<open>fmt.Sprintf("%x", b)\<close> on a byte array: two lower-case digits for each byte.\<close>

definition hex_byte :: "char \<Rightarrow> string" where
  "hex_byte c = [lowerhex ! ((of_char c :: nat) div 16), lowerhex ! ((of_char c :: nat) mod 16)]"

definition CalculateMD5 :: "string \<Rightarrow> string" where
  "CalculateMD5 content = concat (map hex_byte (md5_Sum content))"

definition calculateMD5 :: "string \<Rightarrow> string" where
  "calculateMD5 content = CalculateMD5 content"

section \<open>Long-poll wire format\<close>

text \<open>
  One entry of the \<open>Listening-Configs\<close> parameter, as the two \<open>Sprintf\<close> calls of
  \<open>buildListeningConfigs\<close> write it: the tenant field is left out when it is empty.
\<close>

definition entry_string :: "ConfigItem \<Rightarrow> string" where
  "entry_string item =
     (if Tenant item \<noteq> []
      then DataID item @ [x02] @ Group item @ [x02] @ MD5 item @ [x02] @ Tenant item @ [x01]
      else DataID item @ [x02] @ Group item @ [x02] @ MD5 item @ [x01])"

definition buildListeningConfigs :: "ConfigItem list \<Rightarrow> string" where
  "buildListeningConfigs items = QueryEscape (concat (map entry_string items))"

text \<open>
  The loop of \<open>parseChangedConfigs\<close> over the lines: empty lines and lines with fewer
  than two fields are passed over; the tenant is the fourth field when there is one.
\<close>

fun parse_lines :: "string list \<Rightarrow> ConfigItem list" where
  "parse_lines [] = []"
| "parse_lines (line # lines) =
     (if line = [] then parse_lines lines
      else
        (let fields = Split line x02 in
         if length fields \<ge> 2
         then \<lparr>DataID = fields ! 0, Group = fields ! 1,
               Tenant = (if length fields \<ge> 4 then fields ! 3 else []), MD5 = []\<rparr>
              # parse_lines lines
         else parse_lines lines))"

definition parseChangedConfigs :: "string \<Rightarrow> ConfigItem list" where
  "parseChangedConfigs response =
     (case QueryUnescape response of
        None \<Rightarrow> []
      | Some decoded \<Rightarrow> parse_lines (Split decoded x01))"

subsection \<open>strconv, strings and url.Values\<close>

text \<open>The decimal digits of a natural number, as the verb \<open>%d\<close> prints them.\<close>

fun digits10 :: "nat \<Rightarrow> string" where
  "digits10 n =
     (if n < 10 then [char_of (48 + n)]
      else digits10 (n div 10) @ [char_of (48 + n mod 10)])"

declare digits10.simps [simp del]

definition Itoa :: "int \<Rightarrow> string" where
  "Itoa i = (if i < 0 then CHR ''-'' # digits10 (nat (- i)) else digits10 (nat i))"

definition HasPrefix :: "string \<Rightarrow> string \<Rightarrow> bool" where
  "HasPrefix s p = prefix p s"

definition TrimPrefix :: "string \<Rightarrow> string \<Rightarrow> string" where
  "TrimPrefix s p = (if HasPrefix s p then drop (length p) s else s)"

text \<open>
  \<open>url.Values.Encode\<close> on parameters given in the order of their keys (the Go function
  sorts by key): \<open>k=v\<close> pairs, both sides escaped, joined by \<open>&\<close>.
\<close>

fun Values_Encode :: "(string \<times> string) list \<Rightarrow> string" where
  "Values_Encode [] = []"
| "Values_Encode [(k, v)] = QueryEscape k @ ''='' @ QueryEscape v"
| "Values_Encode ((k, v) # ps) = QueryEscape k @ ''='' @ QueryEscape v @ ''&'' @ Values_Encode ps"

section \<open>The environment of the program\<close>

text \<open>
  Everything outside the process is a world of type \<open>'w\<close>, passed through every call
  that has an effect. An error value of Go is the string of its message, \<open>nil\<close> is
  \<open>None\<close>; a \<open>(value, error)\<close> pair is a sum with the error on the left.
\<close>

record http_request =
  req_method :: string
  req_url :: string
  req_header :: "(string \<times> string) list"
  req_body :: string

text \<open>
  What the code reads of a response: the status code, the \<open>Content-MD5\<close> header
  (empty when absent), the bytes \<open>io.ReadAll\<close> returns and the error it returns.
\<close>

record http_response =
  StatusCode :: int
  ContentMD5 :: string
  Body :: string
  BodyErr :: "string option"

text \<open>
  The operations the code calls and does not define:
  \<^item> \<open>http_Do\<close>: building and sending a request with the listener's HTTP client
    (an error is a failure to build the request, a transport failure or a cancelled
    context);
  \<^item> \<open>map_range\<close>: the order in which one \<open>range\<close> over the map \<open>currentItems\<close>
    visits its keys (Go leaves it unspecified);
  \<^item> \<open>ctx_Done\<close>: whether the context derived from \<open>stopCh\<close> is cancelled;
  \<^item> \<open>time_Sleep\<close>: \<open>time.Sleep\<close>, the duration in seconds;
  \<^item> \<open>client_Get\<close>: the authenticated GET of \<open>NacosClient.GetConfig\<close> for a data id
    and a group, giving the status code and the body;
  \<^item> \<open>os_Stat\<close>, \<open>os_RemoveAll\<close>, \<open>filepath_Join\<close>: the file system;
  \<^item> \<open>skill_GetSkill\<close>: \<open>SkillService.GetSkill\<close>, which writes the local mirror.
\<close>

record 'w sys =
  http_Do :: "http_request \<Rightarrow> 'w \<Rightarrow> (string + http_response) \<times> 'w"
  map_range :: "'w \<Rightarrow> string list \<times> 'w"
  ctx_Done :: "'w \<Rightarrow> bool"
  time_Sleep :: "nat \<Rightarrow> 'w \<Rightarrow> 'w"
  client_Get :: "string \<Rightarrow> string \<Rightarrow> 'w \<Rightarrow> (string + int \<times> string) \<times> 'w"
  os_Stat :: "string \<Rightarrow> 'w \<Rightarrow> string option \<times> 'w"
  os_RemoveAll :: "string \<Rightarrow> 'w \<Rightarrow> string option \<times> 'w"
  skill_GetSkill :: "string \<Rightarrow> string \<Rightarrow> 'w \<Rightarrow> string option \<times> 'w"
  filepath_Join :: "string \<Rightarrow> string \<Rightarrow> string"

text \<open>
  The result of a call of the handler: it returns \<open>nil\<close>, returns an error, or panics.
\<close>

datatype hres = HNil | HErr string | HPanic

type_synonym 'w ChangeHandler = "string \<Rightarrow> string \<Rightarrow> string \<Rightarrow> 'w \<Rightarrow> hres \<times> 'w"

text \<open>The calls the model records, in the order they are made.\<close>

datatype event =
    LongPollCall string
  | SleepCall nat
  | GetConfigCall string string string
  | HandlerCall string string string
  | ClientGetConfigCall string string
  | StatCall string
  | RemoveAllCall string
  | GetSkillCall string string

section \<open>The listener (internal/listener/config\_listener.go)\<close>

record ConfigListener =
  serverAddr :: string
  username :: string
  password :: string
  accessToken :: string

definition NewConfigListener :: "string \<Rightarrow> string \<Rightarrow> string \<Rightarrow> ConfigListener" where
  "NewConfigListener addr user pass =
     \<lparr>serverAddr = addr, username = user, password = pass, accessToken = []\<rparr>"

text \<open>The request of \<open>longPoll\<close> and the request of \<open>getConfig\<close>.\<close>

definition longPoll_request :: "ConfigListener \<Rightarrow> string \<Rightarrow> http_request" where
  "longPoll_request l listeningConfigs =
     (let listenerURL = ''http://'' @ serverAddr l @ ''/nacos/v1/cs/configs/listener'';
          listenerURL' = (if accessToken l \<noteq> [] then listenerURL @ ''?accessToken='' @ accessToken l
                          else listenerURL)
      in \<lparr>req_method = ''POST'', req_url = listenerURL',
           req_header = [(''Content-Type'', ''application/x-www-form-urlencoded''),
                         (''Long-Pulling-Timeout'', ''30000'')],
           req_body = Values_Encode [(''Listening-Configs'', listeningConfigs)]\<rparr>)"

definition getConfig_request :: "ConfigListener \<Rightarrow> string \<Rightarrow> string \<Rightarrow> string \<Rightarrow> http_request" where
  "getConfig_request l dataID grp tenant =
     (let params = (if accessToken l \<noteq> [] then [(''accessToken'', accessToken l)] else [])
                   @ [(''dataId'', dataID), (''group'', grp)]
                   @ (if tenant \<noteq> [] then [(''tenant'', tenant)] else []);
          configURL = ''http://'' @ serverAddr l @ ''/nacos/v1/cs/configs?'' @ Values_Encode params
      in \<lparr>req_method = ''GET'', req_url = configURL, req_header = [], req_body = []\<rparr>)"

definition longPoll :: "'w sys \<Rightarrow> ConfigListener \<Rightarrow> string \<Rightarrow> 'w \<Rightarrow> (string + ConfigItem list) \<times> 'w" where
  "longPoll sys l listeningConfigs w =
     (case http_Do sys (longPoll_request l listeningConfigs) w of
        (Inl err, w') \<Rightarrow> (Inl err, w')
      | (Inr resp, w') \<Rightarrow>
          if StatusCode resp \<noteq> 200
          then (Inl (''listener returned status '' @ Itoa (StatusCode resp) @ '': '' @ Body resp), w')
          else (case BodyErr resp of
                  Some err \<Rightarrow> (Inl err, w')
                | None \<Rightarrow>
                    if length (Body resp) = 0 then (Inr [], w')
                    else (Inr (parseChangedConfigs (Body resp)), w')))"

definition getConfig :: "'w sys \<Rightarrow> ConfigListener \<Rightarrow> string \<Rightarrow> string \<Rightarrow> string \<Rightarrow> 'w
    \<Rightarrow> (string + string \<times> string) \<times> 'w" where
  "getConfig sys l dataID grp tenant w =
     (case http_Do sys (getConfig_request l dataID grp tenant) w of
        (Inl err, w') \<Rightarrow> (Inl err, w')
      | (Inr resp, w') \<Rightarrow>
          if StatusCode resp \<noteq> 200
          then (Inl (''get config returned status '' @ Itoa (StatusCode resp) @ '': '' @ Body resp), w')
          else (case BodyErr resp of
                  Some err \<Rightarrow> (Inl err, w')
                | None \<Rightarrow>
                    (let contentMD5 = (if ContentMD5 resp = [] then calculateMD5 (Body resp)
                                       else ContentMD5 resp)
                     in (Inr (Body resp, contentMD5), w'))))"

subsection \<open>The state of StartListening\<close>

text \<open>
  \<open>items\<close> is the slice the caller passes; \<open>currentItems\<close> maps a key to a pointer
  into that slice, here the index. A write through the pointer is an update of the
  slice at that index, so the next \<open>buildListeningConfigs(items)\<close> sees it.
\<close>

record 'w lstate =
  items :: "ConfigItem list"
  world :: 'w
  trace :: "event list"
  crashed :: bool

definition item_key :: "string \<Rightarrow> string \<Rightarrow> string \<Rightarrow> string" where
  "item_key dataID grp tenant = dataID @ ''_'' @ grp @ ''_'' @ tenant"

text \<open>The first loop of \<open>StartListening\<close>: a later item with the same key replaces an earlier one.\<close>

definition build_currentItems :: "ConfigItem list \<Rightarrow> (string \<rightharpoonup> nat)" where
  "build_currentItems its =
     fold (\<lambda>i m. m(item_key (DataID (its ! i)) (Group (its ! i)) (Tenant (its ! i)) \<mapsto> i))
       [0..<length its] Map.empty"

text \<open>
  The loop that looks for a tenant: the keys in the order of this \<open>range\<close>, stopping at
  the first entry with the data id and the group of the notification.
\<close>

fun find_tenant :: "string list \<Rightarrow> (string \<rightharpoonup> nat) \<Rightarrow> ConfigItem list \<Rightarrow> ConfigItem \<Rightarrow> string" where
  "find_tenant [] cur its changed = []"
| "find_tenant (k # ks) cur its changed =
     (case cur k of
        None \<Rightarrow> find_tenant ks cur its changed
      | Some i \<Rightarrow>
          if DataID (its ! i) = DataID changed \<and> Group (its ! i) = Group changed
          then Tenant (its ! i)
          else find_tenant ks cur its changed)"

definition is_not_found :: "string \<Rightarrow> bool" where
  "is_not_found err = (Contains err ''404'' \<or> Contains err ''not exist'')"

text \<open>
  The tenant used in the key: the notification's own, or when that is empty the one the
  loop above finds (empty when it finds none).
\<close>

definition normalize_tenant :: "'w sys \<Rightarrow> (string \<rightharpoonup> nat) \<Rightarrow> ConfigItem \<Rightarrow> 'w lstate \<Rightarrow> string \<times> 'w" where
  "normalize_tenant sys cur changed st =
     (if Tenant changed = []
      then (case map_range sys (world st) of
              (ord, w) \<Rightarrow> (find_tenant ord cur (items st) changed, w))
      else (Tenant changed, world st))"

text \<open>The body of the loop over \<open>changedItems\<close>, for one notification.\<close>

definition process_changed :: "'w sys \<Rightarrow> ConfigListener \<Rightarrow> 'w ChangeHandler \<Rightarrow> (string \<rightharpoonup> nat)
    \<Rightarrow> ConfigItem \<Rightarrow> 'w lstate \<Rightarrow> 'w lstate" where
  "process_changed sys l handler cur changed st =
     (let (normalizedTenant, w0) = normalize_tenant sys cur changed st;
          key = item_key (DataID changed) (Group changed) normalizedTenant;
          (res, w1) = getConfig sys l (DataID changed) (Group changed) (Tenant changed) w0;
          tr1 = trace st @ [GetConfigCall (DataID changed) (Group changed) (Tenant changed)];
          call = HandlerCall (DataID changed) (Group changed) (Tenant changed)
      in case res of
           Inl err \<Rightarrow>
             if is_not_found err then
               (case cur key of
                  Some i \<Rightarrow>
                    if MD5 (items st ! i) = [] then st\<lparr>world := w1, trace := tr1\<rparr>
                    else
                      (case handler (DataID changed) (Group changed) (Tenant changed) w1 of
                         (HPanic, w2) \<Rightarrow> st\<lparr>world := w2, trace := tr1 @ [call], crashed := True\<rparr>
                       | (_, w2) \<Rightarrow>
                           st\<lparr>items := (items st)[i := (items st ! i)\<lparr>MD5 := []\<rparr>],
                              world := w2, trace := tr1 @ [call]\<rparr>)
                | None \<Rightarrow> st\<lparr>world := w1, trace := tr1\<rparr>)
             else st\<lparr>world := w1, trace := tr1\<rparr>
         | Inr (content, newMD5) \<Rightarrow>
             if (case cur key of Some i \<Rightarrow> MD5 (items st ! i) = newMD5 | None \<Rightarrow> False)
             then st\<lparr>world := w1, trace := tr1\<rparr>
             else
               (case handler (DataID changed) (Group changed) (Tenant changed) w1 of
                  (HPanic, w2) \<Rightarrow> st\<lparr>world := w2, trace := tr1 @ [call], crashed := True\<rparr>
                | (HErr e, w2) \<Rightarrow> st\<lparr>world := w2, trace := tr1 @ [call]\<rparr>
                | (HNil, w2) \<Rightarrow>
                    (case cur key of
                       Some i \<Rightarrow>
                         st\<lparr>items := (items st)[i := (items st ! i)\<lparr>MD5 := newMD5\<rparr>],
                            world := w2, trace := tr1 @ [call]\<rparr>
                     | None \<Rightarrow> st\<lparr>world := w2, trace := tr1 @ [call]\<rparr>)))"

text \<open>The loop over the batch; a panic of the handler ends it.\<close>

fun process_batch :: "'w sys \<Rightarrow> ConfigListener \<Rightarrow> 'w ChangeHandler \<Rightarrow> (string \<rightharpoonup> nat)
    \<Rightarrow> ConfigItem list \<Rightarrow> 'w lstate \<Rightarrow> 'w lstate" where
  "process_batch sys l handler cur [] st = st"
| "process_batch sys l handler cur (changed # rest) st =
     (let st' = process_changed sys l handler cur changed st
      in if crashed st' then st' else process_batch sys l handler cur rest st')"

text \<open>
  One pass through the body of the \<open>for\<close> loop: the function returns (with its error
  value), the program panics, or the loop goes round again.
\<close>

datatype 'w outcome = Returned "string option" "'w lstate" | Panicked "'w lstate" | Continue "'w lstate"

definition iteration :: "'w sys \<Rightarrow> ConfigListener \<Rightarrow> 'w ChangeHandler \<Rightarrow> (string \<rightharpoonup> nat)
    \<Rightarrow> 'w lstate \<Rightarrow> 'w outcome" where
  "iteration sys l handler cur st =
     (if ctx_Done sys (world st) then Returned None st
      else
        (let listeningConfigs = buildListeningConfigs (items st);
             (res, w1) = longPoll sys l listeningConfigs (world st);
             st1 = st\<lparr>world := w1, trace := trace st @ [LongPollCall listeningConfigs]\<rparr>
         in case res of
              Inl err \<Rightarrow>
                if ctx_Done sys w1 then Returned None st1
                else Continue (st1\<lparr>world := time_Sleep sys 5 w1, trace := trace st1 @ [SleepCall 5]\<rparr>)
            | Inr changedItems \<Rightarrow>
                (let st2 = process_batch sys l handler cur changedItems st1
                 in if crashed st2 then Panicked st2 else Continue st2)))"

text \<open>
  The \<open>for\<close> loop with a bound on the number of passes: \<open>None\<close> when the bound is
  reached before the loop ends.
\<close>

fun listen_loop :: "nat \<Rightarrow> 'w sys \<Rightarrow> ConfigListener \<Rightarrow> 'w ChangeHandler \<Rightarrow> (string \<rightharpoonup> nat)
    \<Rightarrow> 'w lstate \<Rightarrow> 'w outcome option" where
  "listen_loop 0 sys l handler cur st = None"
| "listen_loop (Suc n) sys l handler cur st =
     (case iteration sys l handler cur st of
        Continue st' \<Rightarrow> listen_loop n sys l handler cur st'
      | out \<Rightarrow> Some out)"

definition StartListening :: "nat \<Rightarrow> 'w sys \<Rightarrow> ConfigListener \<Rightarrow> ConfigItem list \<Rightarrow> 'w ChangeHandler
    \<Rightarrow> 'w \<Rightarrow> event list \<Rightarrow> 'w outcome option" where
  "StartListening fuel sys l its handler w tr =
     listen_loop fuel sys l handler (build_currentItems its)
       \<lparr>items = its, world = w, trace = tr, crashed = False\<rparr>"

section \<open>The orchestrator (internal/sync/skill\_syncer.go)\<close>

record NacosClient =
  ServerAddr :: string
  Namespace :: string
  Username :: string
  Password :: string

record SkillSyncer =
  client :: NacosClient
  outputDir :: string

text \<open>
  \<open>NacosClient.GetConfig\<close> after its request: a transport error and a status other
  than 200 are errors, otherwise the body is returned with a \<open>nil\<close> error, also when
  the body is empty.
\<close>

definition client_GetConfig :: "'w sys \<Rightarrow> NacosClient \<Rightarrow> string \<Rightarrow> string \<Rightarrow> 'w \<Rightarrow> (string + string) \<times> 'w" where
  "client_GetConfig sys c dataID grp w =
     (case client_Get sys dataID grp w of
        (Inl err, w') \<Rightarrow> (Inl (''get config failed: '' @ err), w')
      | (Inr (status, body), w') \<Rightarrow>
          if status \<noteq> 200 then (Inl (''get config failed: status='' @ Itoa status), w')
          else (Inr body, w'))"

text \<open>
  The state of the first loop of \<open>StartSyncMultiple\<close>. The text it prints is left out;
  the slice \<open>initialMD5[:8]\<close> it prints is in range, since a digest has 32 characters.
\<close>

record 'w seed =
  seed_items :: "ConfigItem list"
  existingCount :: nat
  seed_world :: 'w
  seed_trace :: "event list"

definition seed_one :: "'w sys \<Rightarrow> SkillSyncer \<Rightarrow> 'w seed \<Rightarrow> string \<Rightarrow> 'w seed" where
  "seed_one sys s sd skillName =
     (let grp = ''skill_'' @ skillName;
          tr0 = seed_trace sd @ [ClientGetConfigCall ''skill.json'' grp]
      in case client_GetConfig sys (client s) ''skill.json'' grp (seed_world sd) of
           (Inl err, w1) \<Rightarrow>
             if is_not_found err then
               (let skillPath = filepath_Join sys (outputDir s) skillName;
                    item = \<lparr>DataID = ''skill.json'', Group = grp,
                            Tenant = Namespace (client s), MD5 = []\<rparr>
                in case os_Stat sys skillPath w1 of
                     (None, w2) \<Rightarrow>
                       (case os_RemoveAll sys skillPath w2 of
                          (rmErr, w3) \<Rightarrow>
                            sd\<lparr>seed_items := seed_items sd @ [item], seed_world := w3,
                               seed_trace := tr0 @ [StatCall skillPath, RemoveAllCall skillPath]\<rparr>)
                   | (Some statErr, w2) \<Rightarrow>
                       sd\<lparr>seed_items := seed_items sd @ [item], seed_world := w2,
                          seed_trace := tr0 @ [StatCall skillPath]\<rparr>)
             else sd\<lparr>seed_world := w1, seed_trace := tr0\<rparr>
         | (Inr content, w1) \<Rightarrow>
             if content = [] then sd\<lparr>seed_world := w1, seed_trace := tr0\<rparr>
             else
               (let initialMD5 = calculateMD5 content
                in case skill_GetSkill sys skillName (outputDir s) w1 of
                     (Some err, w2) \<Rightarrow>
                       sd\<lparr>seed_world := w2, seed_trace := tr0 @ [GetSkillCall skillName (outputDir s)]\<rparr>
                   | (None, w2) \<Rightarrow>
                       sd\<lparr>seed_items := seed_items sd
                             @ [\<lparr>DataID = ''skill.json'', Group = grp,
                                  Tenant = Namespace (client s), MD5 = initialMD5\<rparr>],
                          existingCount := existingCount sd + 1, seed_world := w2,
                          seed_trace := tr0 @ [GetSkillCall skillName (outputDir s)]\<rparr>))"

definition seed_all :: "'w sys \<Rightarrow> SkillSyncer \<Rightarrow> string list \<Rightarrow> 'w \<Rightarrow> 'w seed" where
  "seed_all sys s skillNames w =
     foldl (seed_one sys s)
       \<lparr>seed_items = [], existingCount = 0, seed_world = w, seed_trace = []\<rparr> skillNames"

text \<open>
  The handler closure of \<open>StartSyncMultiple\<close>. In the branch for an error or an empty
  content the code calls \<open>err.Error()\<close>; with a \<open>nil\<close> error that call panics.
\<close>

definition sync_handler :: "'w sys \<Rightarrow> SkillSyncer \<Rightarrow> 'w ChangeHandler" where
  "sync_handler sys s dataID grp tenant w =
     (let skillName = (if HasPrefix grp ''skill_'' then TrimPrefix grp ''skill_'' else [])
      in if skillName \<noteq> [] then
           (case client_GetConfig sys (client s) dataID grp w of
              (Inl err, w1) \<Rightarrow>
                if is_not_found err then
                  (case os_RemoveAll sys (filepath_Join sys (outputDir s) skillName) w1 of
                     (rmErr, w2) \<Rightarrow> (HNil, w2))
                else (HErr (''failed to fetch config: '' @ err), w1)
            | (Inr content, w1) \<Rightarrow>
                if content = [] then (HPanic, w1)
                else
                  (case skill_GetSkill sys skillName (outputDir s) w1 of
                     (Some err, w2) \<Rightarrow> (HErr (''failed to sync skill: '' @ err), w2)
                   | (None, w2) \<Rightarrow> (HNil, w2)))
         else (HNil, w))"

definition StartSyncMultiple :: "nat \<Rightarrow> 'w sys \<Rightarrow> SkillSyncer \<Rightarrow> string list \<Rightarrow> 'w \<Rightarrow> 'w outcome option" where
  "StartSyncMultiple fuel sys s skillNames w =
     (if length skillNames = 0
      then Some (Returned (Some ''no skills specified'')
                  \<lparr>items = [], world = w, trace = [], crashed = False\<rparr>)
      else
        (let sd = seed_all sys s skillNames w
         in if length (seed_items sd) = 0
            then Some (Returned (Some ''no skills specified for monitoring'')
                        \<lparr>items = [], world = seed_world sd, trace = seed_trace sd, crashed = False\<rparr>)
            else StartListening fuel sys
                   (NewConfigListener (ServerAddr (client s)) (Username (client s)) (Password (client s)))
                   (seed_items sd) (sync_handler sys s) (seed_world sd) (seed_trace sd)))"

definition StartSync :: "nat \<Rightarrow> 'w sys \<Rightarrow> SkillSyncer \<Rightarrow> string \<Rightarrow> 'w \<Rightarrow> 'w outcome option" where
  "StartSync fuel sys s skillName w = StartSyncMultiple fuel sys s [skillName] w"

section \<open>Predicates and concrete inputs used in the statements\<close>

text \<open>A field that contains neither control byte of the wire format.\<close>

definition no_delim :: "string \<Rightarrow> bool" where
  "no_delim s = (x01 \<notin> set s \<and> x02 \<notin> set s)"

text \<open>
  Two messages of 64 bytes that differ in two bytes and have the same MD5 digest
  (a single-block collision published by M. Stevens in 2012).
\<close>

definition collision_a :: string where
  "collision_a =
     [
      CHR 0x4D, CHR 0xC9, CHR 0x68, CHR 0xFF, CHR 0x0E, CHR 0xE3, CHR 0x5C, CHR 0x20,
      CHR 0x95, CHR 0x72, CHR 0xD4, CHR 0x77, CHR 0x7B, CHR 0x72, CHR 0x15, CHR 0x87,
      CHR 0xD3, CHR 0x6F, CHR 0xA7, CHR 0xB2, CHR 0x1B, CHR 0xDC, CHR 0x56, CHR 0xB7,
      CHR 0x4A, CHR 0x3D, CHR 0xC0, CHR 0x78, CHR 0x3E, CHR 0x7B, CHR 0x95, CHR 0x18,
      CHR 0xAF, CHR 0xBF, CHR 0xA2, CHR 0x00, CHR 0xA8, CHR 0x28, CHR 0x4B, CHR 0xF3,
      CHR 0x6E, CHR 0x8E, CHR 0x4B, CHR 0x55, CHR 0xB3, CHR 0x5F, CHR 0x42, CHR 0x75,
      CHR 0x93, CHR 0xD8, CHR 0x49, CHR 0x67, CHR 0x6D, CHR 0xA0, CHR 0xD1, CHR 0x55,
      CHR 0x5D, CHR 0x83, CHR 0x60, CHR 0xFB, CHR 0x5F, CHR 0x07, CHR 0xFE, CHR 0xA2]"

definition collision_b :: string where
  "collision_b =
     [
      CHR 0x4D, CHR 0xC9, CHR 0x68, CHR 0xFF, CHR 0x0E, CHR 0xE3, CHR 0x5C, CHR 0x20,
      CHR 0x95, CHR 0x72, CHR 0xD4, CHR 0x77, CHR 0x7B, CHR 0x72, CHR 0x15, CHR 0x87,
      CHR 0xD3, CHR 0x6F, CHR 0xA7, CHR 0xB2, CHR 0x1B, CHR 0xDC, CHR 0x56, CHR 0xB7,
      CHR 0x4A, CHR 0x3D, CHR 0xC0, CHR 0x78, CHR 0x3E, CHR 0x7B, CHR 0x95, CHR 0x18,
      CHR 0xAF, CHR 0xBF, CHR 0xA2, CHR 0x02, CHR 0xA8, CHR 0x28, CHR 0x4B, CHR 0xF3,
      CHR 0x6E, CHR 0x8E, CHR 0x4B, CHR 0x55, CHR 0xB3, CHR 0x5F, CHR 0x42, CHR 0x75,
      CHR 0x93, CHR 0xD8, CHR 0x49, CHR 0x67, CHR 0x6D, CHR 0xA0, CHR 0xD1, CHR 0xD5,
      CHR 0x5D, CHR 0x83, CHR 0x60, CHR 0xFB, CHR 0x5F, CHR 0x07, CHR 0xFE, CHR 0xA2]"

text \<open>A watch set of two entries, one in a tenant and one without.\<close>

definition demo_items :: "ConfigItem list" where
  "demo_items =
     [\<lparr>DataID = ''skill.json'', Group = ''skill_demo'', Tenant = ''ns1'', MD5 = ''f1''\<rparr>,
      \<lparr>DataID = ''skill.json'', Group = ''skill_other'', Tenant = [], MD5 = []\<rparr>]"

text \<open>
  A small environment for the scenarios: the world is a clock in seconds; every HTTP
  request of the listener gets the same answer; \<open>range\<close> visits the keys in a fixed
  order; the context is cancelled from a given time on; the remote store answers the
  client by group.
\<close>

definition scen_sys :: "(string + http_response) \<Rightarrow> string list \<Rightarrow> nat
    \<Rightarrow> (string \<Rightarrow> string + int \<times> string) \<Rightarrow> (string \<Rightarrow> string option) \<Rightarrow> nat sys" where
  "scen_sys resp ord cancel_at remote stat =
     \<lparr>http_Do = (\<lambda>req w. (resp, w)),
      map_range = (\<lambda>w. (ord, w)),
      ctx_Done = (\<lambda>w. cancel_at \<le> w),
      time_Sleep = (\<lambda>n w. w + n),
      client_Get = (\<lambda>d g w. (remote g, w)),
      os_Stat = (\<lambda>p w. (stat p, w)),
      os_RemoveAll = (\<lambda>p w. (None, w)),
      skill_GetSkill = (\<lambda>n d w. (None, w)),
      filepath_Join = (\<lambda>a b. a @ ''/'' @ b)\<rparr>"

definition response :: "int \<Rightarrow> string \<Rightarrow> string \<Rightarrow> http_response" where
  "response code md5 body = \<lparr>StatusCode = code, ContentMD5 = md5, Body = body, BodyErr = None\<rparr>"

definition handler_ok :: "nat ChangeHandler" where
  "handler_ok dataID grp tenant w = (HNil, w)"

definition handler_failing :: "nat ChangeHandler" where
  "handler_failing dataID grp tenant w = (HErr ''disk full'', w)"

definition demo_listener :: ConfigListener where
  "demo_listener = NewConfigListener ''127.0.0.1:8848'' ''nacos'' ''nacos''"

definition demo_state :: "nat lstate" where
  "demo_state = \<lparr>items = demo_items, world = 0, trace = [], crashed = False\<rparr>"

definition demo_key :: string where
  "demo_key = ''skill.json_skill_demo_ns1''"

definition demo_changed :: "string \<Rightarrow> ConfigItem" where
  "demo_changed tenant = \<lparr>DataID = ''skill.json'', Group = ''skill_demo'', Tenant = tenant, MD5 = []\<rparr>"

definition demo_cur :: "string \<rightharpoonup> nat" where
  "demo_cur = build_currentItems demo_items"

text \<open>
  Three remote stores: the entry has new content with fingerprint \<open>f2\<close>; the entry has
  the content the watch set already knows (\<open>f1\<close>); the entry is gone (status 404).
\<close>

definition sys_updated :: "nat sys" where
  "sys_updated =
     scen_sys (Inr (response 200 ''f2'' ''new content'')) [demo_key] 100 (\<lambda>g. Inl []) (\<lambda>p. None)"

definition sys_same :: "nat sys" where
  "sys_same =
     scen_sys (Inr (response 200 ''f1'' ''content'')) [demo_key] 100 (\<lambda>g. Inl []) (\<lambda>p. None)"

definition sys_deleted :: "nat sys" where
  "sys_deleted =
     scen_sys (Inr (response 404 [] ''config data not exist'')) [demo_key] 100 (\<lambda>g. Inl []) (\<lambda>p. None)"


text \<open>
  Long-poll answers: the server answers 503; nothing changed (status 200, empty body);
  a body that is not percent-encoded text.
\<close>

definition sys_busy :: "nat sys" where
  "sys_busy = scen_sys (Inr (response 503 [] ''busy'')) [demo_key] 100 (\<lambda>g. Inl []) (\<lambda>p. None)"

definition sys_quiet :: "nat sys" where
  "sys_quiet = scen_sys (Inr (response 200 [] [])) [demo_key] 100 (\<lambda>g. Inl []) (\<lambda>p. None)"

definition sys_garbled :: "nat sys" where
  "sys_garbled = scen_sys (Inr (response 200 [] ''%zz'')) [demo_key] 100 (\<lambda>g. Inl []) (\<lambda>p. None)"

text \<open>
  The server cannot be reached: every request fails after \<open>latency\<close> seconds; the
  context is cancelled from the time \<open>cancel_at\<close> on.
\<close>

definition sys_down :: "nat \<Rightarrow> nat \<Rightarrow> nat sys" where
  "sys_down latency cancel_at =
     (scen_sys (Inl ''connection refused'') [demo_key] cancel_at (\<lambda>g. Inl []) (\<lambda>p. None))
       \<lparr>http_Do := (\<lambda>req w. (Inl ''connection refused'', w + latency))\<rparr>"

text \<open>
  A remote store for the orchestrator: the record \<open>gone\<close> does not exist (status
  404), the store fails for \<open>broken\<close> (status 500), the entry of \<open>blank\<close> exists
  with empty content, every other record has the content \<open>{}\<close>. Every local path
  exists.
\<close>

definition demo_remote :: "string \<Rightarrow> string + int \<times> string" where
  "demo_remote g =
     (if g = ''skill_gone'' then Inr (404, ''config data not exist'')
      else if g = ''skill_broken'' then Inr (500, ''internal error'')
      else if g = ''skill_blank'' then Inr (200, [])
      else Inr (200, ''{}''))"

definition sync_sys :: "nat sys" where
  "sync_sys = scen_sys (Inr (response 200 [] [])) [] 100 demo_remote (\<lambda>p. None)"

definition demo_syncer :: SkillSyncer where
  "demo_syncer =
     \<lparr>client = \<lparr>ServerAddr = ''127.0.0.1:8848'', Namespace = ''public'',
                 Username = ''nacos'', Password = ''nacos''\<rparr>,
      outputDir = ''/tmp/skills''\<rparr>"

definition seed0 :: "nat seed" where
  "seed0 = \<lparr>seed_items = [], existingCount = 0, seed_world = 0, seed_trace = []\<rparr>"

text \<open>
  A store that has the entry of \<open>skill_demo\<close> under the tenant \<open>ns1\<close> only, with the
  fingerprint \<open>f1\<close>: it answers the request that names this tenant with the content,
  and every other request with 404.
\<close>

definition sys_tenanted :: "nat sys" where
  "sys_tenanted =
     (scen_sys (Inr (response 404 [] ''config data not exist'')) [demo_key] 100 (\<lambda>g. Inl []) (\<lambda>p. None))
       \<lparr>http_Do := (\<lambda>req w.
           (if req_url req
                 = ''http://127.0.0.1:8848/nacos/v1/cs/configs?dataId=skill.json&group=skill_demo&tenant=ns1''
            then Inr (response 200 ''f1'' ''content'')
            else Inr (response 404 [] ''config data not exist''), w))\<rparr>"

section \<open>Properties\<close>

subsection \<open>Splitting\<close>

lemma Split_not_Nil: "Split s c \<noteq> []"
  by (induction s) auto

lemma Split_no_sep: "c \<notin> set s \<Longrightarrow> Split s c = [s]"
  by (induction s) auto

lemma Split_append_sep: "c \<notin> set a \<Longrightarrow> Split (a @ c # rest) c = a # Split rest c"
  by (induction a) auto

subsection \<open>Percent-encoding\<close>

lemma hex_digit_all:
  "\<forall>k<16. ishex (upperhex ! k) \<and> unhex (upperhex ! k) = k"
  by (simp add: eval_nat_numeral All_less_Suc upperhex_def ishex_def unhex_def)

lemma ishex_upperhex: "k < 16 \<Longrightarrow> ishex (upperhex ! k)"
  using hex_digit_all by blast

lemma unhex_upperhex: "k < 16 \<Longrightarrow> unhex (upperhex ! k) = k"
  using hex_digit_all by blast

lemma of_char_less_256: "(of_char c :: nat) < 256"
proof -
  have "(of_char c :: nat) mod 256 < 256" by simp
  then show ?thesis by (simp only: of_char_mod_256)
qed

lemma unescape_escape_byte:
  "QueryUnescape (escape_byte c @ rest) = map_option ((#) c) (QueryUnescape rest)"
proof (cases "c = CHR '' ''")
  case True
  then show ?thesis by (simp add: escape_byte_def)
next
  case False
  show ?thesis
  proof (cases "shouldEscape c")
    case True
    let ?n = "of_char c :: nat"
    have d: "?n div 16 < 16"
      using of_char_less_256 [of c] by presburger
    have m: "?n mod 16 < 16"
      by simp
    have "char_of (unhex (upperhex ! (?n div 16)) * 16 + unhex (upperhex ! (?n mod 16))) = c"
      by (simp add: unhex_upperhex [OF d] unhex_upperhex [OF m])
    with True False show ?thesis
      by (simp add: escape_byte_def ishex_upperhex [OF d] ishex_upperhex [OF m])
  next
    case ne: False
    then have "c \<noteq> CHR ''%''" and "c \<noteq> CHR ''+''"
      by (auto simp: shouldEscape_def is_alnum_def)
    with ne False show ?thesis
      by (simp add: escape_byte_def)
  qed
qed

lemma QueryUnescape_QueryEscape: "QueryUnescape (QueryEscape s) = Some s"
proof (induction s)
  case Nil
  then show ?case by (simp add: QueryEscape_def)
next
  case (Cons c s)
  have "QueryEscape (c # s) = escape_byte c @ QueryEscape s"
    by (simp add: QueryEscape_def)
  with Cons show ?case
    by (simp add: unescape_escape_byte)
qed


subsection \<open>The wire format\<close>

lemma x01_neq_x02: "x01 \<noteq> x02"
  by (simp add: x01_def x02_def)

lemma parse_entry:
  assumes "no_delim (DataID it)" "no_delim (Group it)" "no_delim (MD5 it)" "no_delim (Tenant it)"
  shows "parse_lines (Split (entry_string it @ rest) x01)
           = it\<lparr>MD5 := []\<rparr> # parse_lines (Split rest x01)"
proof (cases "Tenant it = []")
  case True
  let ?body = "DataID it @ x02 # Group it @ x02 # MD5 it"
  have e: "entry_string it @ rest = ?body @ x01 # rest"
    using True by (simp add: entry_string_def)
  have nb: "x01 \<notin> set ?body"
    using assms x01_neq_x02 by (auto simp: no_delim_def)
  have f: "Split ?body x02 = [DataID it, Group it, MD5 it]"
    using assms by (simp add: no_delim_def Split_append_sep Split_no_sep)
  have "?body \<noteq> []" by simp
  with f True show ?thesis
    unfolding e Split_append_sep [OF nb] by (simp add: Let_def)
next
  case False
  let ?body = "DataID it @ x02 # Group it @ x02 # MD5 it @ x02 # Tenant it"
  have e: "entry_string it @ rest = ?body @ x01 # rest"
    using False by (simp add: entry_string_def)
  have nb: "x01 \<notin> set ?body"
    using assms x01_neq_x02 by (auto simp: no_delim_def)
  have f: "Split ?body x02 = [DataID it, Group it, MD5 it, Tenant it]"
    using assms by (simp add: no_delim_def Split_append_sep Split_no_sep)
  have "?body \<noteq> []" by simp
  with f False show ?thesis
    unfolding e Split_append_sep [OF nb] by (simp add: Let_def)
qed

lemma parse_entries:
  assumes "\<forall>it\<in>set its. no_delim (DataID it) \<and> no_delim (Group it) \<and> no_delim (MD5 it) \<and> no_delim (Tenant it)"
  shows "parse_lines (Split (concat (map entry_string its)) x01) = map (\<lambda>it. it\<lparr>MD5 := []\<rparr>) its"
  using assms
proof (induction its)
  case Nil
  then show ?case by simp
next
  case (Cons it its)
  then show ?case by (simp add: parse_entry)
qed

lemma parse_build:
  assumes "\<forall>it\<in>set its. no_delim (DataID it) \<and> no_delim (Group it) \<and> no_delim (MD5 it) \<and> no_delim (Tenant it)"
  shows "parseChangedConfigs (buildListeningConfigs its) = map (\<lambda>it. it\<lparr>MD5 := []\<rparr>) its"
  using parse_entries [OF assms]
  by (simp add: parseChangedConfigs_def buildListeningConfigs_def QueryUnescape_QueryEscape)

text \<open>
  Claim C5. For a watch set whose fields contain neither delimiter byte, decoding with
  \<open>parseChangedConfigs\<close> what \<open>buildListeningConfigs\<close> wrote gives back the
  (data id, group, tenant) triples of the entries, all of them and in order; the tenant
  is empty exactly where it was left out, and no fingerprint is decoded.
\<close>

theorem C5_round_trip:
  assumes "\<forall>it\<in>set its. no_delim (DataID it) \<and> no_delim (Group it) \<and> no_delim (MD5 it) \<and> no_delim (Tenant it)"
  shows "map (\<lambda>it. (DataID it, Group it, Tenant it)) (parseChangedConfigs (buildListeningConfigs its))
           = map (\<lambda>it. (DataID it, Group it, Tenant it)) its
         \<and> (\<forall>it\<in>set (parseChangedConfigs (buildListeningConfigs its)). MD5 it = [])"
  by (simp add: parse_build [OF assms])

theorem C5_round_trip_witness:
  "map (\<lambda>it. (DataID it, Group it, Tenant it)) (parseChangedConfigs (buildListeningConfigs demo_items))
     = [(''skill.json'', ''skill_demo'', ''ns1''), (''skill.json'', ''skill_other'', [])]"
proof -
  have h: "\<forall>it\<in>set demo_items. no_delim (DataID it) \<and> no_delim (Group it) \<and> no_delim (MD5 it) \<and> no_delim (Tenant it)"
    by (simp add: demo_items_def no_delim_def x01_def x02_def)
  from C5_round_trip [OF h] have
    "map (\<lambda>it. (DataID it, Group it, Tenant it)) (parseChangedConfigs (buildListeningConfigs demo_items))
       = map (\<lambda>it. (DataID it, Group it, Tenant it)) demo_items"
    by blast
  then show ?thesis by (simp add: demo_items_def)
qed

subsection \<open>The fingerprint\<close>

lemma replicate_numeral: "replicate (numeral k) x = x # replicate (pred_numeral k) x"
  by (simp add: numeral_eq_Suc)

lemma le_bytes_numeral: "le_bytes (numeral k) n = char_of n # le_bytes (pred_numeral k) (n div 256)"
  using le_bytes.simps(2) [of "pred_numeral k" n] by (simp only: numeral_eq_Suc [symmetric])

lemmas md5_eval = CalculateMD5_def md5_Sum_def md5_pad_def replicate_numeral le_bytes_numeral
  md5_blocks.simps hex_byte_def lowerhex_def md5_F_def md5_table_def RotateLeft32_def add32_def

lemma md5_empty: "CalculateMD5 [] = ''d41d8cd98f00b204e9800998ecf8427e''"
  by (simp add: md5_eval)

lemma md5_collision_a: "CalculateMD5 collision_a = ''008ee33a9d58b51cfeb425b0959121c9''"
  by (simp add: collision_a_def md5_eval)

lemma md5_collision_b: "CalculateMD5 collision_b = ''008ee33a9d58b51cfeb425b0959121c9''"
  by (simp add: collision_b_def md5_eval)

lemma collision_distinct: "collision_a \<noteq> collision_b"
  by (simp add: collision_a_def collision_b_def)

lemma length_le_bytes: "length (le_bytes k n) = k"
  by (induction k arbitrary: n) auto

lemma length_md5_Sum: "length (md5_Sum data) = 16"
  by (simp add: md5_Sum_def length_le_bytes split: prod.splits)

lemma length_hex: "length (concat (map hex_byte bs)) = 2 * length bs"
  by (induction bs) (auto simp: hex_byte_def)

lemma length_CalculateMD5: "length (CalculateMD5 content) = 32"
  by (simp add: CalculateMD5_def length_hex length_md5_Sum)

lemma lowerhex_nth: "k < 16 \<Longrightarrow> lowerhex ! k \<in> set lowerhex"
proof -
  assume "k < 16"
  then have "k < length lowerhex" by (simp add: lowerhex_def)
  then show ?thesis by (rule nth_mem)
qed

lemma set_hex: "set (concat (map hex_byte bs)) \<subseteq> set lowerhex"
proof (induction bs)
  case Nil
  then show ?case by simp
next
  case (Cons b bs)
  have d: "(of_char b :: nat) div 16 < 16"
    using of_char_less_256 [of b] by presburger
  have m: "(of_char b :: nat) mod 16 < 16"
    by simp
  from Cons lowerhex_nth [OF d] lowerhex_nth [OF m] show ?case
    by (simp add: hex_byte_def)
qed

text \<open>
  Claim C10, as stated, fails: the two messages above are different and have the same
  fingerprint.
\<close>

theorem C10_counterexample:
  "\<not> (CalculateMD5 collision_a = CalculateMD5 collision_b \<longleftrightarrow> collision_a = collision_b)"
  by (simp add: md5_collision_a md5_collision_b collision_distinct)

text \<open>
  Claim C10, amended. The fingerprint is a function of the content alone: equal
  contents have equal fingerprints. It is always 32 lower-case hexadecimal digits.
\<close>

theorem C10_fingerprint:
  "(a = b \<longrightarrow> CalculateMD5 a = CalculateMD5 b)
   \<and> length (CalculateMD5 a) = 32 \<and> set (CalculateMD5 a) \<subseteq> set lowerhex"
proof -
  have "set (CalculateMD5 a) \<subseteq> set lowerhex"
    unfolding CalculateMD5_def by (rule set_hex)
  with length_CalculateMD5 [of a] show ?thesis by blast
qed

theorem C10_fingerprint_witness:
  "CalculateMD5 collision_a = CalculateMD5 collision_a
   \<and> length (CalculateMD5 collision_a) = 32
   \<and> set (CalculateMD5 collision_a) \<subseteq> set lowerhex"
  using C10_fingerprint [of collision_a collision_a] by simp

subsection \<open>The resolver, case by case\<close>

lemma Itoa_404: "Itoa 404 = ''404''"
  by (simp add: Itoa_def digits10.simps char_of_eq_iff)

lemma not_found_status_404:
  "is_not_found (''get config returned status '' @ Itoa 404 @ '': '' @ body)"
proof -
  have "sublist ''404'' (''get config returned status '' @ ''404'' @ ('': '' @ body))"
    unfolding sublist_def by blast
  then show ?thesis
    by (simp add: is_not_found_def Contains_def Itoa_404)
qed

lemma build_currentItems_bound_aux:
  "fold (\<lambda>i m. m(f i \<mapsto> i)) ns m0 k = Some i \<Longrightarrow> i \<in> set ns \<or> m0 k = Some i"
proof (induction ns arbitrary: m0)
  case Nil
  then show ?case by simp
next
  case (Cons a ns)
  from Cons.prems have "fold (\<lambda>i m. m(f i \<mapsto> i)) ns (m0(f a \<mapsto> a)) k = Some i"
    by (simp only: fold_simps)
  from Cons.IH [OF this] show ?case
    by (auto split: if_splits)
qed

lemma build_currentItems_bound: "build_currentItems its k = Some i \<Longrightarrow> i < length its"
  using build_currentItems_bound_aux [of _ "[0..<length its]" Map.empty k i]
  by (auto simp: build_currentItems_def)

lemma process_changed_unchanged:
  assumes "normalize_tenant sys cur changed st = (nt, wa)"
    and "cur (item_key (DataID changed) (Group changed) nt) = Some i"
    and "getConfig sys l (DataID changed) (Group changed) (Tenant changed) wa = (Inr (content, fp), wb)"
    and "MD5 (items st ! i) = fp"
  shows "process_changed sys l handler cur changed st
           = st\<lparr>world := wb,
                 trace := trace st @ [GetConfigCall (DataID changed) (Group changed) (Tenant changed)]\<rparr>"
  using assms by (simp add: process_changed_def)

lemma process_changed_updated:
  assumes "normalize_tenant sys cur changed st = (nt, wa)"
    and "cur (item_key (DataID changed) (Group changed) nt) = Some i"
    and "getConfig sys l (DataID changed) (Group changed) (Tenant changed) wa = (Inr (content, fp), wb)"
    and "MD5 (items st ! i) \<noteq> fp"
    and "handler (DataID changed) (Group changed) (Tenant changed) wb = (HNil, wc)"
  shows "process_changed sys l handler cur changed st
           = st\<lparr>items := (items st)[i := (items st ! i)\<lparr>MD5 := fp\<rparr>], world := wc,
                 trace := trace st @ [GetConfigCall (DataID changed) (Group changed) (Tenant changed),
                                      HandlerCall (DataID changed) (Group changed) (Tenant changed)]\<rparr>"
  using assms by (simp add: process_changed_def)

lemma process_changed_update_failed:
  assumes "normalize_tenant sys cur changed st = (nt, wa)"
    and "cur (item_key (DataID changed) (Group changed) nt) = Some i"
    and "getConfig sys l (DataID changed) (Group changed) (Tenant changed) wa = (Inr (content, fp), wb)"
    and "MD5 (items st ! i) \<noteq> fp"
    and "handler (DataID changed) (Group changed) (Tenant changed) wb = (HErr e, wc)"
  shows "process_changed sys l handler cur changed st
           = st\<lparr>world := wc,
                 trace := trace st @ [GetConfigCall (DataID changed) (Group changed) (Tenant changed),
                                      HandlerCall (DataID changed) (Group changed) (Tenant changed)]\<rparr>"
  using assms by (simp add: process_changed_def)

lemma process_changed_deleted:
  assumes "normalize_tenant sys cur changed st = (nt, wa)"
    and "cur (item_key (DataID changed) (Group changed) nt) = Some i"
    and "getConfig sys l (DataID changed) (Group changed) (Tenant changed) wa = (Inl err, wb)"
    and "is_not_found err"
    and "MD5 (items st ! i) \<noteq> []"
    and "handler (DataID changed) (Group changed) (Tenant changed) wb = (r, wc)"
    and "r \<noteq> HPanic"
  shows "process_changed sys l handler cur changed st
           = st\<lparr>items := (items st)[i := (items st ! i)\<lparr>MD5 := []\<rparr>], world := wc,
                 trace := trace st @ [GetConfigCall (DataID changed) (Group changed) (Tenant changed),
                                      HandlerCall (DataID changed) (Group changed) (Tenant changed)]\<rparr>"
  using assms by (cases r) (simp_all add: process_changed_def)

lemma process_changed_deleted_again:
  assumes "normalize_tenant sys cur changed st = (nt, wa)"
    and "cur (item_key (DataID changed) (Group changed) nt) = Some i"
    and "getConfig sys l (DataID changed) (Group changed) (Tenant changed) wa = (Inl err, wb)"
    and "is_not_found err"
    and "MD5 (items st ! i) = []"
  shows "process_changed sys l handler cur changed st
           = st\<lparr>world := wb,
                 trace := trace st @ [GetConfigCall (DataID changed) (Group changed) (Tenant changed)]\<rparr>"
  using assms by (simp add: process_changed_def)

subsection \<open>The scenarios\<close>

lemma demo_cur_key: "demo_cur demo_key = Some 0"
  by (simp add: demo_cur_def build_currentItems_def demo_items_def demo_key_def item_key_def)

lemma demo_normalize:
  "normalize_tenant (scen_sys resp ord c remote stat) demo_cur (demo_changed ''ns1'') demo_state = (''ns1'', 0)"
  by (simp add: normalize_tenant_def demo_changed_def demo_state_def)

lemma demo_item_key: "item_key ''skill.json'' ''skill_demo'' ''ns1'' = demo_key"
  by (simp add: item_key_def demo_key_def)

lemma fetch_updated:
  "getConfig sys_updated l d g t w = (Inr (''new content'', ''f2''), w)"
  by (simp add: getConfig_def sys_updated_def scen_sys_def response_def)

lemma fetch_same:
  "getConfig sys_same l d g t w = (Inr (''content'', ''f1''), w)"
  by (simp add: getConfig_def sys_same_def scen_sys_def response_def)

lemma fetch_deleted:
  "getConfig sys_deleted l d g t w
     = (Inl ''get config returned status 404: config data not exist'', w)"
  by (simp add: getConfig_def sys_deleted_def scen_sys_def response_def Itoa_404)

lemma fetch_deleted_not_found:
  "is_not_found ''get config returned status 404: config data not exist''"
  using not_found_status_404 [of "''config data not exist''"] by (simp add: Itoa_404)


lemma normalize_tenant_given:
  "Tenant changed \<noteq> [] \<Longrightarrow> normalize_tenant sys cur changed st = (Tenant changed, world st)"
  by (simp add: normalize_tenant_def)

lemma demo_changed_sel [simp]:
  "DataID (demo_changed t) = ''skill.json''" "Group (demo_changed t) = ''skill_demo''"
  "Tenant (demo_changed t) = t"
  by (simp_all add: demo_changed_def)

lemma demo_norm:
  "normalize_tenant sys demo_cur (demo_changed ''ns1'') st = (''ns1'', world st)"
  using normalize_tenant_given [of "demo_changed ''ns1''" sys demo_cur st] by simp

lemma demo_key_cur:
  "demo_cur (item_key ''skill.json'' ''skill_demo'' ''ns1'') = Some 0"
  by (simp add: demo_item_key demo_cur_key)

lemma demo_state_sel [simp]:
  "items demo_state = demo_items" "world demo_state = 0" "trace demo_state = []"
  "crashed demo_state = False"
  by (simp_all add: demo_state_def)

lemma demo_items_md5 [simp]: "MD5 (demo_items ! 0) = ''f1''" "length demo_items = 2"
  by (simp_all add: demo_items_def)

text \<open>
  Claim C9. When the fingerprint of the fetched content equals the fingerprint stored
  for the key, the state is left as it was but for the world and the record of the
  fetch: the handler is not called and no fingerprint changes. In particular, after a
  notification was dispatched with success, the same notification with the same content
  is resolved as unchanged.
\<close>

theorem C9_unchanged:
  assumes "normalize_tenant sys cur changed st = (nt, wa)"
    and "cur (item_key (DataID changed) (Group changed) nt) = Some i"
    and "getConfig sys l (DataID changed) (Group changed) (Tenant changed) wa = (Inr (content, fp), wb)"
  shows "(MD5 (items st ! i) = fp \<longrightarrow>
            process_changed sys l handler cur changed st
              = st\<lparr>world := wb,
                    trace := trace st @ [GetConfigCall (DataID changed) (Group changed) (Tenant changed)]\<rparr>)
       \<and> (MD5 (items st ! i) \<noteq> fp \<and> i < length (items st)
            \<and> handler (DataID changed) (Group changed) (Tenant changed) wb = (HNil, wc)
            \<and> normalize_tenant sys cur changed (process_changed sys l handler cur changed st) = (nt, wa')
            \<and> getConfig sys l (DataID changed) (Group changed) (Tenant changed) wa' = (Inr (content', fp), wb')
          \<longrightarrow> process_changed sys l handler cur changed (process_changed sys l handler cur changed st)
              = (process_changed sys l handler cur changed st)
                  \<lparr>world := wb',
                   trace := trace (process_changed sys l handler cur changed st)
                            @ [GetConfigCall (DataID changed) (Group changed) (Tenant changed)]\<rparr>)"
proof (intro conjI impI)
  assume "MD5 (items st ! i) = fp"
  with assms show "process_changed sys l handler cur changed st
      = st\<lparr>world := wb,
            trace := trace st @ [GetConfigCall (DataID changed) (Group changed) (Tenant changed)]\<rparr>"
    by (rule process_changed_unchanged)
next
  let ?st1 = "process_changed sys l handler cur changed st"
  assume h: "MD5 (items st ! i) \<noteq> fp \<and> i < length (items st)
      \<and> handler (DataID changed) (Group changed) (Tenant changed) wb = (HNil, wc)
      \<and> normalize_tenant sys cur changed ?st1 = (nt, wa')
      \<and> getConfig sys l (DataID changed) (Group changed) (Tenant changed) wa' = (Inr (content', fp), wb')"
  then have st1: "?st1 = st\<lparr>items := (items st)[i := (items st ! i)\<lparr>MD5 := fp\<rparr>], world := wc,
        trace := trace st @ [GetConfigCall (DataID changed) (Group changed) (Tenant changed),
                             HandlerCall (DataID changed) (Group changed) (Tenant changed)]\<rparr>"
    using assms by (intro process_changed_updated) auto
  from h have "MD5 (items ?st1 ! i) = fp"
    by (simp add: st1)
  with h assms(2) show "process_changed sys l handler cur changed ?st1
      = ?st1\<lparr>world := wb',
              trace := trace ?st1 @ [GetConfigCall (DataID changed) (Group changed) (Tenant changed)]\<rparr>"
    by (intro process_changed_unchanged) auto
qed

theorem C9_unchanged_witness:
  "process_changed sys_same demo_listener handler_ok demo_cur (demo_changed ''ns1'') demo_state
     = demo_state\<lparr>world := 0, trace := [GetConfigCall ''skill.json'' ''skill_demo'' ''ns1'']\<rparr>
   \<and> map MD5 (items (process_changed sys_updated demo_listener handler_ok demo_cur (demo_changed ''ns1'')
        (process_changed sys_updated demo_listener handler_ok demo_cur (demo_changed ''ns1'') demo_state)))
       = [''f2'', []]
   \<and> trace (process_changed sys_updated demo_listener handler_ok demo_cur (demo_changed ''ns1'')
        (process_changed sys_updated demo_listener handler_ok demo_cur (demo_changed ''ns1'') demo_state))
       = [GetConfigCall ''skill.json'' ''skill_demo'' ''ns1'', HandlerCall ''skill.json'' ''skill_demo'' ''ns1'',
          GetConfigCall ''skill.json'' ''skill_demo'' ''ns1'']"
proof -
  let ?c = "demo_changed ''ns1''"
  let ?st1 = "process_changed sys_updated demo_listener handler_ok demo_cur ?c demo_state"
  have a: "process_changed sys_same demo_listener handler_ok demo_cur ?c demo_state
     = demo_state\<lparr>world := 0, trace := [GetConfigCall ''skill.json'' ''skill_demo'' ''ns1'']\<rparr>"
    using C9_unchanged [where sys = sys_same and cur = demo_cur and changed = "?c" and st = demo_state
        and nt = "''ns1''" and wa = 0 and i = 0 and l = demo_listener and content = "''content''"
        and fp = "''f1''" and wb = 0 and handler = handler_ok]
    by (simp add: demo_norm demo_key_cur fetch_same)
  have st1: "?st1 = demo_state\<lparr>items := demo_items[0 := (demo_items ! 0)\<lparr>MD5 := ''f2''\<rparr>], world := 0,
        trace := [GetConfigCall ''skill.json'' ''skill_demo'' ''ns1'',
                  HandlerCall ''skill.json'' ''skill_demo'' ''ns1'']\<rparr>"
    using process_changed_updated [where sys = sys_updated and cur = demo_cur and changed = "?c"
        and st = demo_state and nt = "''ns1''" and wa = 0 and i = 0 and l = demo_listener
        and content = "''new content''" and fp = "''f2''" and wb = 0 and handler = handler_ok
        and wc = 0]
    by (simp add: demo_norm demo_key_cur fetch_updated handler_ok_def)
  have b: "process_changed sys_updated demo_listener handler_ok demo_cur ?c ?st1
      = ?st1\<lparr>world := 0, trace := trace ?st1 @ [GetConfigCall ''skill.json'' ''skill_demo'' ''ns1'']\<rparr>"
    using C9_unchanged [where sys = sys_updated and cur = demo_cur and changed = "?c" and st = demo_state
        and nt = "''ns1''" and wa = 0 and i = 0 and l = demo_listener and content = "''new content''"
        and fp = "''f2''" and wb = 0 and handler = handler_ok and wc = 0 and wa' = 0
        and content' = "''new content''" and wb' = 0]
    by (simp add: demo_norm demo_key_cur fetch_updated handler_ok_def st1)
  show ?thesis
    unfolding b unfolding a st1 by (simp add: demo_items_def)
qed

text \<open>
  Claim C4. A not-found fetch for a watched key whose stored fingerprint is not empty
  calls the handler once and empties the fingerprint; the next not-found fetch for that
  key, and any not-found fetch while the stored fingerprint is empty, records the fetch
  only: no handler call, and the fingerprint stays empty.
\<close>

theorem C4_deleted_once:
  assumes "normalize_tenant sys cur changed st = (nt, wa)"
    and "cur (item_key (DataID changed) (Group changed) nt) = Some i"
    and "getConfig sys l (DataID changed) (Group changed) (Tenant changed) wa = (Inl err, wb)"
    and "is_not_found err"
  shows "(MD5 (items st ! i) \<noteq> [] \<and> i < length (items st)
            \<and> handler (DataID changed) (Group changed) (Tenant changed) wb = (r, wc) \<and> r \<noteq> HPanic
          \<longrightarrow> trace (process_changed sys l handler cur changed st)
                = trace st @ [GetConfigCall (DataID changed) (Group changed) (Tenant changed),
                              HandlerCall (DataID changed) (Group changed) (Tenant changed)]
              \<and> MD5 (items (process_changed sys l handler cur changed st) ! i) = [])
       \<and> (MD5 (items st ! i) \<noteq> [] \<and> i < length (items st)
            \<and> handler (DataID changed) (Group changed) (Tenant changed) wb = (r, wc) \<and> r \<noteq> HPanic
            \<and> normalize_tenant sys cur changed (process_changed sys l handler cur changed st) = (nt, wa')
            \<and> getConfig sys l (DataID changed) (Group changed) (Tenant changed) wa' = (Inl err', wb')
            \<and> is_not_found err'
          \<longrightarrow> process_changed sys l handler cur changed (process_changed sys l handler cur changed st)
                = (process_changed sys l handler cur changed st)
                    \<lparr>world := wb',
                     trace := trace (process_changed sys l handler cur changed st)
                              @ [GetConfigCall (DataID changed) (Group changed) (Tenant changed)]\<rparr>)
       \<and> (MD5 (items st ! i) = []
          \<longrightarrow> process_changed sys l handler cur changed st
                = st\<lparr>world := wb,
                      trace := trace st @ [GetConfigCall (DataID changed) (Group changed) (Tenant changed)]\<rparr>)"
proof (intro conjI impI)
  let ?st1 = "process_changed sys l handler cur changed st"
  {
    assume h: "MD5 (items st ! i) \<noteq> [] \<and> i < length (items st)
        \<and> handler (DataID changed) (Group changed) (Tenant changed) wb = (r, wc) \<and> r \<noteq> HPanic"
    then have st1: "?st1 = st\<lparr>items := (items st)[i := (items st ! i)\<lparr>MD5 := []\<rparr>], world := wc,
          trace := trace st @ [GetConfigCall (DataID changed) (Group changed) (Tenant changed),
                               HandlerCall (DataID changed) (Group changed) (Tenant changed)]\<rparr>"
      using assms by (intro process_changed_deleted) auto
    from h show "trace ?st1 = trace st @ [GetConfigCall (DataID changed) (Group changed) (Tenant changed),
                               HandlerCall (DataID changed) (Group changed) (Tenant changed)]"
      by (simp add: st1)
    from h show "MD5 (items ?st1 ! i) = []"
      by (simp add: st1)
  }
  {
    assume h: "MD5 (items st ! i) \<noteq> [] \<and> i < length (items st)
        \<and> handler (DataID changed) (Group changed) (Tenant changed) wb = (r, wc) \<and> r \<noteq> HPanic
        \<and> normalize_tenant sys cur changed ?st1 = (nt, wa')
        \<and> getConfig sys l (DataID changed) (Group changed) (Tenant changed) wa' = (Inl err', wb')
        \<and> is_not_found err'"
    then have st1: "?st1 = st\<lparr>items := (items st)[i := (items st ! i)\<lparr>MD5 := []\<rparr>], world := wc,
          trace := trace st @ [GetConfigCall (DataID changed) (Group changed) (Tenant changed),
                               HandlerCall (DataID changed) (Group changed) (Tenant changed)]\<rparr>"
      using assms by (intro process_changed_deleted) auto
    from h have "MD5 (items ?st1 ! i) = []"
      by (simp add: st1)
    with h assms(2) show "process_changed sys l handler cur changed ?st1
        = ?st1\<lparr>world := wb',
                trace := trace ?st1 @ [GetConfigCall (DataID changed) (Group changed) (Tenant changed)]\<rparr>"
      by (intro process_changed_deleted_again) auto
  }
  {
    assume "MD5 (items st ! i) = []"
    with assms show "?st1 = st\<lparr>world := wb,
        trace := trace st @ [GetConfigCall (DataID changed) (Group changed) (Tenant changed)]\<rparr>"
      by (rule process_changed_deleted_again)
  }
qed

theorem C4_deleted_once_witness:
  "trace (process_changed sys_deleted demo_listener handler_ok demo_cur (demo_changed ''ns1'') demo_state)
     = [GetConfigCall ''skill.json'' ''skill_demo'' ''ns1'', HandlerCall ''skill.json'' ''skill_demo'' ''ns1'']
   \<and> MD5 (items (process_changed sys_deleted demo_listener handler_ok demo_cur (demo_changed ''ns1'') demo_state) ! 0) = []
   \<and> trace (process_changed sys_deleted demo_listener handler_ok demo_cur (demo_changed ''ns1'')
        (process_changed sys_deleted demo_listener handler_ok demo_cur (demo_changed ''ns1'') demo_state))
     = [GetConfigCall ''skill.json'' ''skill_demo'' ''ns1'', HandlerCall ''skill.json'' ''skill_demo'' ''ns1'',
        GetConfigCall ''skill.json'' ''skill_demo'' ''ns1'']"
proof -
  let ?c = "demo_changed ''ns1''"
  let ?st1 = "process_changed sys_deleted demo_listener handler_ok demo_cur ?c demo_state"
  note T = C4_deleted_once [where sys = sys_deleted and cur = demo_cur and changed = "?c"
      and st = demo_state and nt = "''ns1''" and wa = 0 and i = 0 and l = demo_listener
      and err = "''get config returned status 404: config data not exist''"
      and wb = 0 and handler = handler_ok and r = HNil and wc = 0 and wa' = 0
      and err' = "''get config returned status 404: config data not exist''"
      and wb' = 0]
  have a: "trace ?st1 = [GetConfigCall ''skill.json'' ''skill_demo'' ''ns1'',
                         HandlerCall ''skill.json'' ''skill_demo'' ''ns1'']"
    using T by (simp add: demo_norm demo_key_cur fetch_deleted fetch_deleted_not_found handler_ok_def)
  have b: "MD5 (items ?st1 ! 0) = []"
    using T by (simp add: demo_norm demo_key_cur fetch_deleted fetch_deleted_not_found handler_ok_def)
  have w: "world ?st1 = 0"
    using process_changed_deleted [where sys = sys_deleted and cur = demo_cur and changed = "?c"
        and st = demo_state and nt = "''ns1''" and wa = 0 and i = 0 and l = demo_listener
        and err = "''get config returned status 404: config data not exist''"
        and wb = 0 and handler = handler_ok and r = HNil and wc = 0]
    by (simp add: demo_norm demo_key_cur fetch_deleted fetch_deleted_not_found handler_ok_def)
  have c: "process_changed sys_deleted demo_listener handler_ok demo_cur ?c ?st1
      = ?st1\<lparr>world := 0, trace := trace ?st1 @ [GetConfigCall ''skill.json'' ''skill_demo'' ''ns1'']\<rparr>"
    using T a by (simp add: demo_norm demo_key_cur fetch_deleted fetch_deleted_not_found handler_ok_def w)
  show ?thesis
    unfolding c using a b by simp
qed

text \<open>
  Claim C1 fails on the code for a deletion. The entry is gone (status 404), the watch
  set holds the fingerprint \<open>f1\<close> for its key and the handler returns an error: the
  handler is called once, and the stored fingerprint is reset to empty all the same.
  The branch for new content keeps the stored fingerprint when the handler fails (lemma
  \<open>update_branch_handler_result\<close> below).
\<close>

theorem C1_deletion_handler_error:
  "fst (handler_failing ''skill.json'' ''skill_demo'' ''ns1'' 0) = HErr ''disk full''
   \<and> MD5 (items demo_state ! 0) = ''f1''
   \<and> trace (process_changed sys_deleted demo_listener handler_failing demo_cur (demo_changed ''ns1'') demo_state)
       = [GetConfigCall ''skill.json'' ''skill_demo'' ''ns1'', HandlerCall ''skill.json'' ''skill_demo'' ''ns1'']
   \<and> MD5 (items (process_changed sys_deleted demo_listener handler_failing demo_cur (demo_changed ''ns1'')
         demo_state) ! 0) = []"
proof -
  have "process_changed sys_deleted demo_listener handler_failing demo_cur (demo_changed ''ns1'') demo_state
      = demo_state\<lparr>items := (items demo_state)[0 := (items demo_state ! 0)\<lparr>MD5 := []\<rparr>], world := 0,
          trace := trace demo_state @ [GetConfigCall (DataID (demo_changed ''ns1'')) (Group (demo_changed ''ns1'')) (Tenant (demo_changed ''ns1'')),
                                       HandlerCall (DataID (demo_changed ''ns1'')) (Group (demo_changed ''ns1'')) (Tenant (demo_changed ''ns1''))]\<rparr>"
    by (rule process_changed_deleted [where nt = "''ns1''" and wa = 0 and wb = 0 and r = "HErr ''disk full''"
          and err = "''get config returned status 404: config data not exist''"])
       (simp_all add: demo_norm demo_key_cur fetch_deleted fetch_deleted_not_found handler_failing_def)
  then show ?thesis
    by (simp add: handler_failing_def)
qed

text \<open>
  The branch for new content: when the handler returns an error no fingerprint changes,
  and when it returns \<open>nil\<close> the stored fingerprint becomes the new one.
\<close>

lemma update_branch_handler_result:
  assumes "normalize_tenant sys cur changed st = (nt, wa)"
    and "cur (item_key (DataID changed) (Group changed) nt) = Some i"
    and "i < length (items st)"
    and "getConfig sys l (DataID changed) (Group changed) (Tenant changed) wa = (Inr (content, fp), wb)"
    and "MD5 (items st ! i) \<noteq> fp"
  shows "(handler (DataID changed) (Group changed) (Tenant changed) wb = (HErr e, wc)
          \<longrightarrow> items (process_changed sys l handler cur changed st) = items st)
       \<and> (handler (DataID changed) (Group changed) (Tenant changed) wb = (HNil, wc)
          \<longrightarrow> MD5 (items (process_changed sys l handler cur changed st) ! i) = fp)"
proof (intro conjI impI)
  let ?st1 = "process_changed sys l handler cur changed st"
  {
    assume "handler (DataID changed) (Group changed) (Tenant changed) wb = (HErr e, wc)"
    then have "?st1 = st\<lparr>world := wc,
          trace := trace st @ [GetConfigCall (DataID changed) (Group changed) (Tenant changed),
                               HandlerCall (DataID changed) (Group changed) (Tenant changed)]\<rparr>"
      using assms by (intro process_changed_update_failed) auto
    then show "items ?st1 = items st" by simp
  }
  {
    assume "handler (DataID changed) (Group changed) (Tenant changed) wb = (HNil, wc)"
    then have st1: "?st1 = st\<lparr>items := (items st)[i := (items st ! i)\<lparr>MD5 := fp\<rparr>], world := wc,
          trace := trace st @ [GetConfigCall (DataID changed) (Group changed) (Tenant changed),
                               HandlerCall (DataID changed) (Group changed) (Tenant changed)]\<rparr>"
      using assms by (intro process_changed_updated) auto
    from assms(3) show "MD5 (items ?st1 ! i) = fp"
      by (simp add: st1)
  }
qed

subsection \<open>The tenant of a notification\<close>

lemma find_tenant_first:
  assumes "k \<in> set ord" and "cur k = Some i"
    and "DataID (its ! i) = DataID changed" and "Group (its ! i) = Group changed"
    and "\<forall>k' j. cur k' = Some j \<and> DataID (its ! j) = DataID changed \<and> Group (its ! j) = Group changed
           \<longrightarrow> Tenant (its ! j) = Tenant (its ! i)"
  shows "find_tenant ord cur its changed = Tenant (its ! i)"
  using assms(1)
proof (induction ord)
  case Nil
  then show ?case by simp
next
  case (Cons a ord)
  show ?case
  proof (cases "cur a")
    case None
    with Cons assms(2) have "k \<in> set ord" by auto
    with Cons.IH None show ?thesis by simp
  next
    case (Some j)
    show ?thesis
    proof (cases "DataID (its ! j) = DataID changed \<and> Group (its ! j) = Group changed")
      case True
      with Some assms(5) have "Tenant (its ! j) = Tenant (its ! i)" by blast
      with Some True show ?thesis by simp
    next
      case False
      with Some assms(2,3,4) have "a \<noteq> k" by auto
      with Cons.prems have "k \<in> set ord" by simp
      with Cons.IH Some False show ?thesis by auto
    qed
  qed
qed


text \<open>
  With a notification without a tenant, the key is formed with the tenant of the first
  entry of the watch set that has its data id and group, in the order of the \<open>range\<close>.
\<close>

lemma normalize_tenant_adopts:
  assumes "Tenant changed = []"
    and "map_range sys (world st) = (ord, wa)"
    and "k \<in> set ord" and "cur k = Some i"
    and "DataID (items st ! i) = DataID changed" and "Group (items st ! i) = Group changed"
    and "\<forall>k' j. cur k' = Some j \<and> DataID (items st ! j) = DataID changed
             \<and> Group (items st ! j) = Group changed
           \<longrightarrow> Tenant (items st ! j) = Tenant (items st ! i)"
  shows "normalize_tenant sys cur changed st = (Tenant (items st ! i), wa)"
proof -
  have "find_tenant ord cur (items st) changed = Tenant (items st ! i)"
    by (rule find_tenant_first [OF assms(3) assms(4) assms(5) assms(6) assms(7)])
  with assms(1) assms(2) show ?thesis
    by (simp add: normalize_tenant_def)
qed

lemma fetch_tenanted_ns1:
  "getConfig sys_tenanted demo_listener ''skill.json'' ''skill_demo'' ''ns1'' w
     = (Inr (''content'', ''f1''), w)"
  by (simp add: getConfig_def getConfig_request_def sys_tenanted_def scen_sys_def response_def
      demo_listener_def NewConfigListener_def QueryEscape_def escape_byte_def shouldEscape_def
      is_alnum_def)

lemma fetch_tenanted_empty:
  "getConfig sys_tenanted demo_listener ''skill.json'' ''skill_demo'' [] w
     = (Inl ''get config returned status 404: config data not exist'', w)"
  by (simp add: getConfig_def getConfig_request_def sys_tenanted_def scen_sys_def response_def
      demo_listener_def NewConfigListener_def QueryEscape_def escape_byte_def shouldEscape_def
      is_alnum_def Itoa_404)

text \<open>
  Claim C2 fails on the code. The watch set has the entry under the tenant \<open>ns1\<close>,
  where the store still has it with the fingerprint \<open>f1\<close> the watch set knows; the
  notification comes without a tenant. The tenant \<open>ns1\<close> is adopted for the key, but
  the fetch and the handler are called with the empty tenant: the request carries no
  tenant parameter, the store answers 404, the handler is called as for a deletion and
  the stored fingerprint is emptied.
\<close>

theorem C2_fetch_without_adopted_tenant:
  "Tenant (demo_changed []) = [] \<and> Tenant (demo_items ! 0) = ''ns1'' \<and> MD5 (demo_items ! 0) = ''f1''
   \<and> fst (normalize_tenant sys_tenanted demo_cur (demo_changed []) demo_state) = ''ns1''
   \<and> getConfig sys_tenanted demo_listener ''skill.json'' ''skill_demo'' ''ns1'' 0
       = (Inr (''content'', ''f1''), 0)
   \<and> req_url (getConfig_request demo_listener ''skill.json'' ''skill_demo'' [])
       = ''http://127.0.0.1:8848/nacos/v1/cs/configs?dataId=skill.json&group=skill_demo''
   \<and> trace (process_changed sys_tenanted demo_listener handler_ok demo_cur (demo_changed []) demo_state)
       = [GetConfigCall ''skill.json'' ''skill_demo'' [], HandlerCall ''skill.json'' ''skill_demo'' []]
   \<and> MD5 (items (process_changed sys_tenanted demo_listener handler_ok demo_cur (demo_changed [])
         demo_state) ! 0) = []"
proof -
  have n: "normalize_tenant sys_tenanted demo_cur (demo_changed []) demo_state = (''ns1'', 0)"
    by (simp add: normalize_tenant_def sys_tenanted_def scen_sys_def demo_cur_key demo_items_def)
  have "process_changed sys_tenanted demo_listener handler_ok demo_cur (demo_changed []) demo_state
      = demo_state\<lparr>items := (items demo_state)[0 := (items demo_state ! 0)\<lparr>MD5 := []\<rparr>], world := 0,
          trace := trace demo_state @ [GetConfigCall (DataID (demo_changed [])) (Group (demo_changed [])) (Tenant (demo_changed [])),
                                       HandlerCall (DataID (demo_changed [])) (Group (demo_changed [])) (Tenant (demo_changed []))]\<rparr>"
    by (rule process_changed_deleted [where nt = "''ns1''" and wa = 0 and wb = 0 and r = HNil
          and err = "''get config returned status 404: config data not exist''"])
       (simp_all add: n demo_key_cur fetch_tenanted_empty fetch_deleted_not_found handler_ok_def)
  moreover have "req_url (getConfig_request demo_listener ''skill.json'' ''skill_demo'' [])
       = ''http://127.0.0.1:8848/nacos/v1/cs/configs?dataId=skill.json&group=skill_demo''"
    by (simp add: getConfig_request_def demo_listener_def NewConfigListener_def QueryEscape_def
        escape_byte_def shouldEscape_def is_alnum_def)
  ultimately show ?thesis
    by (simp add: n fetch_tenanted_ns1 demo_items_def)
qed

subsection \<open>The long-poll call and the loop\<close>

lemma Itoa_503: "Itoa 503 = ''503''"
  by (simp add: Itoa_def digits10.simps char_of_eq_iff)

lemma parse_undecodable: "QueryUnescape body = None \<Longrightarrow> parseChangedConfigs body = []"
  by (simp add: parseChangedConfigs_def)

lemma iteration_poll_ok:
  assumes "\<not> ctx_Done sys (world st)"
    and "longPoll sys l (buildListeningConfigs (items st)) (world st) = (Inr changedItems, wb)"
  shows "iteration sys l handler cur st
           = (let st2 = process_batch sys l handler cur changedItems
                          (st\<lparr>world := wb, trace := trace st @ [LongPollCall (buildListeningConfigs (items st))]\<rparr>)
              in if crashed st2 then Panicked st2 else Continue st2)"
  using assms by (simp add: iteration_def Let_def)





text \<open>
  Claim C6. With a response whose status is not 200, \<open>longPoll\<close> returns an error that
  carries the status and the body. With status 200 and an empty body it returns the
  empty list and no error. With status 200 and a body that cannot be percent-decoded it
  returns the empty list as well, and the pass of the loop ends with the watch set as it
  was and nothing called but the long poll: the loop continues.
\<close>

theorem C6_longPoll:
  assumes "http_Do sys (longPoll_request l lc) w = (Inr resp, w')"
  shows "(StatusCode resp \<noteq> 200 \<longrightarrow>
            longPoll sys l lc w
              = (Inl (''listener returned status '' @ Itoa (StatusCode resp) @ '': '' @ Body resp), w'))
       \<and> (StatusCode resp = 200 \<and> BodyErr resp = None \<and> Body resp = [] \<longrightarrow>
            longPoll sys l lc w = (Inr [], w'))
       \<and> (StatusCode resp = 200 \<and> BodyErr resp = None \<and> QueryUnescape (Body resp) = None \<longrightarrow>
            longPoll sys l lc w = (Inr [], w')
            \<and> (lc = buildListeningConfigs (items st) \<and> w = world st \<and> \<not> ctx_Done sys w
                  \<and> \<not> crashed st \<longrightarrow>
                  iteration sys l handler cur st
                    = Continue (st\<lparr>world := w', trace := trace st @ [LongPollCall lc]\<rparr>)))"
proof (intro conjI impI)
  assume "StatusCode resp \<noteq> 200"
  with assms show "longPoll sys l lc w
      = (Inl (''listener returned status '' @ Itoa (StatusCode resp) @ '': '' @ Body resp), w')"
    by (simp add: longPoll_def)
next
  assume "StatusCode resp = 200 \<and> BodyErr resp = None \<and> Body resp = []"
  with assms show "longPoll sys l lc w = (Inr [], w')"
    by (simp add: longPoll_def)
next
  assume h: "StatusCode resp = 200 \<and> BodyErr resp = None \<and> QueryUnescape (Body resp) = None"
  with assms show lp: "longPoll sys l lc w = (Inr [], w')"
    by (simp add: longPoll_def parse_undecodable)
  assume c: "lc = buildListeningConfigs (items st) \<and> w = world st \<and> \<not> ctx_Done sys w
      \<and> \<not> crashed st"
  with lp have "iteration sys l handler cur st
      = (let st2 = process_batch sys l handler cur []
                     (st\<lparr>world := w', trace := trace st @ [LongPollCall (buildListeningConfigs (items st))]\<rparr>)
         in if crashed st2 then Panicked st2 else Continue st2)"
    by (intro iteration_poll_ok) auto
  then show "iteration sys l handler cur st
      = Continue (st\<lparr>world := w', trace := trace st @ [LongPollCall lc]\<rparr>)"
    using c by (simp add: Let_def)
qed


lemma longPoll_busy:
  "longPoll sys_busy l lc w = (Inl ''listener returned status 503: busy'', w)"
  by (simp add: longPoll_def sys_busy_def scen_sys_def response_def Itoa_503)

theorem C6_longPoll_witness:
  "longPoll sys_busy demo_listener (buildListeningConfigs demo_items) 0
     = (Inl ''listener returned status 503: busy'', 0)
   \<and> longPoll sys_quiet demo_listener (buildListeningConfigs demo_items) 0 = (Inr [], 0)
   \<and> longPoll sys_garbled demo_listener (buildListeningConfigs demo_items) 0 = (Inr [], 0)
   \<and> iteration sys_garbled demo_listener handler_ok demo_cur demo_state
       = Continue (demo_state\<lparr>world := 0, trace := [LongPollCall (buildListeningConfigs demo_items)]\<rparr>)"
proof -
  let ?lc = "buildListeningConfigs demo_items"
  have ha: "http_Do sys_busy (longPoll_request demo_listener ?lc) 0 = (Inr (response 503 [] ''busy''), 0)"
    by (simp add: sys_busy_def scen_sys_def)
  have a: "longPoll sys_busy demo_listener ?lc 0 = (Inl ''listener returned status 503: busy'', 0)"
    using C6_longPoll [OF ha] by (simp add: response_def Itoa_503)
  have hb: "http_Do sys_quiet (longPoll_request demo_listener ?lc) 0 = (Inr (response 200 [] []), 0)"
    by (simp add: sys_quiet_def scen_sys_def)
  have b: "longPoll sys_quiet demo_listener ?lc 0 = (Inr [], 0)"
    using C6_longPoll [OF hb] by (simp add: response_def)
  have hc: "http_Do sys_garbled (longPoll_request demo_listener ?lc) 0 = (Inr (response 200 [] ''%zz''), 0)"
    by (simp add: sys_garbled_def scen_sys_def)
  have u: "QueryUnescape (Body (response 200 [] ''%zz'')) = None"
    by (simp add: response_def ishex_def)
  have r: "StatusCode (response 200 [] ''%zz'') = 200" "BodyErr (response 200 [] ''%zz'') = None"
    by (simp_all add: response_def)
  have nd: "\<not> ctx_Done sys_garbled 0"
    by (simp add: sys_garbled_def scen_sys_def)
  note T = C6_longPoll [OF hc, where st = demo_state and handler = handler_ok and cur = demo_cur]
  have c: "longPoll sys_garbled demo_listener ?lc 0 = (Inr [], 0)"
    using T u r by blast
  have d: "iteration sys_garbled demo_listener handler_ok demo_cur demo_state
       = Continue (demo_state\<lparr>world := 0, trace := [LongPollCall ?lc]\<rparr>)"
    using T u r nd by simp
  from a b c d show ?thesis by simp
qed



lemma sys_down_sel [simp]:
  "ctx_Done (sys_down latency c) w = (c \<le> w)" "time_Sleep (sys_down latency c) k w = w + k"
  by (simp_all add: sys_down_def scen_sys_def)


subsection \<open>The orchestrator\<close>









lemma fetch_blank:
  "client_GetConfig sync_sys c ''skill.json'' ''skill_blank'' w = (Inr [], w)"
  by (simp add: client_GetConfig_def sync_sys_def scen_sys_def demo_remote_def)





text \<open>
  Claim C3 fails on the code. The entry of the record \<open>blank\<close> exists with empty
  content, so \<open>GetConfig\<close> returns the empty string and a \<open>nil\<close> error; the handler
  then calls \<open>err.Error()\<close> on the \<open>nil\<close> error and panics. The first loop of
  \<open>StartSyncMultiple\<close> tests the same two values apart and skips such a record.
\<close>

theorem C3_handler_panics:
  "client_GetConfig sync_sys (client demo_syncer) ''skill.json'' ''skill_blank'' 0 = (Inr [], 0)
   \<and> sync_handler sync_sys demo_syncer ''skill.json'' ''skill_blank'' ''public'' 0 = (HPanic, 0)
   \<and> seed_items (seed_one sync_sys demo_syncer seed0 ''blank'') = []"
proof -
  have "seed_one sync_sys demo_syncer seed0 ''blank''
      = seed0\<lparr>seed_trace := [ClientGetConfigCall ''skill.json'' ''skill_blank'']\<rparr>"
    using fetch_blank [of "client demo_syncer" 0]
    by (simp add: seed_one_def Let_def seed0_def)
  then show ?thesis
    by (simp add: fetch_blank sync_handler_def HasPrefix_def TrimPrefix_def seed0_def)
qed

end
